theory Spec2Isabelle
  imports Main "HOL-Library.Sublist"
begin

section \<open>Python strings\<close>

text \<open>
  A Python \<open>str\<close> is modelled as a \<^typ>\<open>string\<close>; one \<^typ>\<open>char\<close> stands for one code
  point in the range 0..255, so \<^const>\<open>length\<close> is Python's \<open>len\<close> on such text.
\<close>

definition quoted :: "string \<Rightarrow> string" where
  \<comment> \<open>the f-string fragment \<open>'{s}'\<close>\<close>
  "quoted s = CHR 0x27 # s @ [CHR 0x27]"

text \<open>
  \<open>s.replace(old, new)\<close>: the non-overlapping occurrences of \<open>old\<close> are replaced from left to
  right. For the empty pattern Python inserts \<open>new\<close> before every character and once at the
  end.
\<close>

function str_replace :: "string \<Rightarrow> string \<Rightarrow> string \<Rightarrow> string" where
  "str_replace [] old new = (if old = [] then new else [])"
| "str_replace (c # cs) old new =
     (if old = [] then new @ c # str_replace cs old new
      else if prefix old (c # cs) then new @ str_replace (drop (length old) (c # cs)) old new
      else c # str_replace cs old new)"
  by pat_completeness auto
termination
  by (relation "measure (\<lambda>(s, old, new). length s)") auto

definition str_in :: "string \<Rightarrow> string \<Rightarrow> bool" where
  \<comment> \<open>\<open>p in s\<close> on strings: \<open>p\<close> occurs as a contiguous piece of \<open>s\<close>\<close>
  "str_in p s = sublist p s"

definition is_space :: "char \<Rightarrow> bool" where
  \<comment> \<open>\<open>str.isspace\<close> on the code points below 256\<close>
  "is_space c = (c \<in> {CHR 0x09, CHR 0x0A, CHR 0x0B, CHR 0x0C, CHR 0x0D,
                       CHR 0x1C, CHR 0x1D, CHR 0x1E, CHR 0x1F, CHR 0x20, CHR 0x85, CHR 0xA0})"

definition strip :: "string \<Rightarrow> string" where
  "strip s = rev (dropWhile is_space (rev (dropWhile is_space s)))"

definition unescape :: "string \<Rightarrow> string" where
  \<comment> \<open>\<open>s.replace('\\n', '\n').replace('\\t', '\t').replace('\\"', '"')\<close>\<close>
  "unescape s =
     str_replace (str_replace (str_replace s [CHR 0x5C, CHR ''n''] [CHR 0x0A])
                              [CHR 0x5C, CHR ''t''] [CHR 0x09])
                 [CHR 0x5C, CHR 0x22] [CHR 0x22]"

fun join :: "string \<Rightarrow> string list \<Rightarrow> string" where
  \<comment> \<open>\<open>sep.join(xs)\<close>\<close>
  "join sep [] = []"
| "join sep [x] = x"
| "join sep (x # y # ys) = x @ sep @ join sep (y # ys)"



section \<open>The file system\<close>

text \<open>
  A canonical absolute path is the list of its components below the root; the working
  directory \<open>cwd\<close> is given in that form, so it stands for \<open>Path.cwd().resolve()\<close>. The tree is the
  only thing the tools change; the working directory, the resolution of path strings
  (\<open>Path(p).resolve()\<close>, which follows \<open>.\<close>, \<open>..\<close> and symbolic links) and the
  operations the operating system refuses are an environment that stays fixed. The order of
  a directory's association list is the order in which \<open>iterdir\<close> yields its children.
\<close>

type_synonym path = "string list"

datatype node = File string | Dir "(string \<times> node) list"

datatype exn =
    FileNotFoundError
  | PermissionError
  | FileExistsError
  | NotADirectoryError
  | IsADirectoryError
  | OtherError string

fun exn_str :: "exn \<Rightarrow> string" where
  \<comment> \<open>\<open>str(e)\<close>; the path that Python adds to the text of an \<open>OSError\<close> is left out\<close>
  "exn_str FileNotFoundError = ''[Errno 2] No such file or directory''"
| "exn_str PermissionError = ''[Errno 13] Permission denied''"
| "exn_str FileExistsError = ''[Errno 17] File exists''"
| "exn_str NotADirectoryError = ''[Errno 20] Not a directory''"
| "exn_str IsADirectoryError = ''[Errno 21] Is a directory''"
| "exn_str (OtherError m) = m"

record os_env =
  cwd :: path
  resolve :: "string \<Rightarrow> exn + path"
  read_fault :: "path \<Rightarrow> exn option"
  write_fault :: "path \<Rightarrow> exn option"
  mkdir_fault :: "path \<Rightarrow> exn option"
  list_fault :: "path \<Rightarrow> exn option"

fun lookup :: "node \<Rightarrow> path \<Rightarrow> node option" where
  "lookup n [] = Some n"
| "lookup n (x # xs) =
     (case n of
        File _ \<Rightarrow> None
      | Dir es \<Rightarrow> (case map_of es x of None \<Rightarrow> None | Some ch \<Rightarrow> lookup ch xs))"

definition exists :: "node \<Rightarrow> path \<Rightarrow> bool" where
  "exists t q = (lookup t q \<noteq> None)"

definition is_file :: "node \<Rightarrow> path \<Rightarrow> bool" where
  "is_file t q = (case lookup t q of Some (File _) \<Rightarrow> True | _ \<Rightarrow> False)"

definition is_dir :: "node \<Rightarrow> path \<Rightarrow> bool" where
  "is_dir t q = (case lookup t q of Some (Dir _) \<Rightarrow> True | _ \<Rightarrow> False)"

definition put_child :: "string \<Rightarrow> node \<Rightarrow> (string \<times> node) list \<Rightarrow> (string \<times> node) list" where
  \<comment> \<open>replace the child in place, or add it after the others\<close>
  "put_child x ch es =
     (if x \<in> fst ` set es then map (\<lambda>(k, v). if k = x then (k, ch) else (k, v)) es
      else es @ [(x, ch)])"

fun write_node :: "node \<Rightarrow> path \<Rightarrow> string \<Rightarrow> exn + node" where
  \<comment> \<open>\<open>open(q, 'w').write(c)\<close> on the tree\<close>
  "write_node n [] c =
     (case n of File _ \<Rightarrow> Inr (File c) | Dir _ \<Rightarrow> Inl IsADirectoryError)"
| "write_node n (x # xs) c =
     (case n of
        File _ \<Rightarrow> Inl NotADirectoryError
      | Dir es \<Rightarrow>
          (case map_of es x of
             None \<Rightarrow> if xs = [] then Inr (Dir (put_child x (File c) es)) else Inl FileNotFoundError
           | Some ch \<Rightarrow>
               (case write_node ch xs c of
                  Inl e \<Rightarrow> Inl e
                | Inr ch' \<Rightarrow> Inr (Dir (put_child x ch' es)))))"

fun mkdir_node :: "node \<Rightarrow> path \<Rightarrow> exn + node" where
  \<comment> \<open>\<open>mkdir(parents=True, exist_ok=True)\<close> on the tree\<close>
  "mkdir_node n [] = (case n of Dir _ \<Rightarrow> Inr n | File _ \<Rightarrow> Inl FileExistsError)"
| "mkdir_node n (x # xs) =
     (case n of
        File _ \<Rightarrow> Inl NotADirectoryError
      | Dir es \<Rightarrow>
          (case mkdir_node (case map_of es x of None \<Rightarrow> Dir [] | Some ch \<Rightarrow> ch) xs of
             Inl e \<Rightarrow> Inl e
           | Inr ch' \<Rightarrow> Inr (Dir (put_child x ch' es))))"

definition read_text :: "os_env \<Rightarrow> node \<Rightarrow> path \<Rightarrow> exn + string" where
  "read_text os t q =
     (case read_fault os q of
        Some e \<Rightarrow> Inl e
      | None \<Rightarrow>
          (case lookup t q of
             None \<Rightarrow> Inl FileNotFoundError
           | Some (Dir _) \<Rightarrow> Inl IsADirectoryError
           | Some (File c) \<Rightarrow> Inr c))"

definition write_text :: "os_env \<Rightarrow> node \<Rightarrow> path \<Rightarrow> string \<Rightarrow> exn + node" where
  \<comment> \<open>a write that is refused fails on opening the file and leaves the tree as it was\<close>
  "write_text os t q c =
     (case write_fault os q of Some e \<Rightarrow> Inl e | None \<Rightarrow> write_node t q c)"

definition mkdir_parents :: "os_env \<Rightarrow> node \<Rightarrow> path \<Rightarrow> exn + node" where
  "mkdir_parents os t q =
     (case mkdir_fault os q of Some e \<Rightarrow> Inl e | None \<Rightarrow> mkdir_node t q)"

definition iterdir :: "os_env \<Rightarrow> node \<Rightarrow> path \<Rightarrow> exn + (string \<times> node) list" where
  "iterdir os t q =
     (case list_fault os q of
        Some e \<Rightarrow> Inl e
      | None \<Rightarrow>
          (case lookup t q of
             None \<Rightarrow> Inl FileNotFoundError
           | Some (File _) \<Rightarrow> Inl NotADirectoryError
           | Some (Dir es) \<Rightarrow> Inr es))"

definition path_str :: "path \<Rightarrow> string" where
  \<comment> \<open>\<open>str\<close> of an absolute path\<close>
  "path_str p = (if p = [] then ''/'' else concat (map (\<lambda>c. ''/'' @ c) p))"

section \<open>Rendering paths and listings\<close>

fun split_slash :: "string \<Rightarrow> string list" where
  \<comment> \<open>\<open>s.split('/')\<close>\<close>
  "split_slash [] = [[]]"
| "split_slash (c # cs) =
     (if c = CHR ''/'' then [] # split_slash cs
      else (case split_slash cs of [] \<Rightarrow> [[c]] | w # ws \<Rightarrow> (c # w) # ws))"

definition pure_root :: "string \<Rightarrow> string" where
  \<comment> \<open>the root of a POSIX pure path: exactly two leading slashes are kept\<close>
  "pure_root s =
     (if prefix ''//'' s \<and> \<not> prefix ''///'' s then ''//''
      else if prefix ''/'' s then ''/'' else [])"

definition pure_parts :: "string \<Rightarrow> string list" where
  \<comment> \<open>the components of a pure path: empty ones and \<open>.\<close> are dropped, \<open>..\<close> stays\<close>
  "pure_parts s = filter (\<lambda>c. c \<noteq> [] \<and> c \<noteq> ''.'') (split_slash s)"

definition rel_path :: "string \<Rightarrow> string \<Rightarrow> string" where
  \<comment> \<open>\<open>str(Path(path) / name)\<close> for a directory entry's name (one component)\<close>
  "rel_path path name = pure_root path @ join ''/'' (pure_parts path @ [name])"

definition hexdigit :: "nat \<Rightarrow> char" where
  "hexdigit d = ''0123456789abcdef'' ! (d mod 16)"

definition json_char :: "char \<Rightarrow> string" where
  \<comment> \<open>the escapes of \<open>json.dumps\<close> with \<open>ensure_ascii=True\<close>\<close>
  "json_char c =
     (if c = CHR 0x22 then [CHR 0x5C, CHR 0x22]
      else if c = CHR 0x5C then [CHR 0x5C, CHR 0x5C]
      else if c = CHR 0x0A then [CHR 0x5C, CHR ''n'']
      else if c = CHR 0x0D then [CHR 0x5C, CHR ''r'']
      else if c = CHR 0x09 then [CHR 0x5C, CHR ''t'']
      else if c = CHR 0x08 then [CHR 0x5C, CHR ''b'']
      else if c = CHR 0x0C then [CHR 0x5C, CHR ''f'']
      else if (32::nat) \<le> of_char c \<and> of_char c \<le> (126::nat) then [c]
      else [CHR 0x5C, CHR ''u'', CHR ''0'', CHR ''0'',
            hexdigit (of_char c div 16), hexdigit (of_char c mod 16)])"

definition json_dumps :: "string list \<Rightarrow> string" where
  \<comment> \<open>\<open>json.dumps\<close> of a list of strings\<close>
  "json_dumps xs =
     ''['' @ join '', '' (map (\<lambda>s. CHR 0x22 # concat (map json_char s) @ [CHR 0x22]) xs) @ '']''"

section \<open>The tools\<close>

definition access_denied :: "string \<Rightarrow> os_env \<Rightarrow> string" where
  "access_denied verb os =
     ''Error: Access denied. Can only '' @ verb @
     '' files within the current project directory: '' @ path_str (cwd os)"

definition max_len :: nat where
  "max_len = 10000"

definition read_file_except :: "string \<Rightarrow> exn \<Rightarrow> string" where
  "read_file_except path e =
     (case e of
        FileNotFoundError \<Rightarrow> ''Error: File not found at path '' @ quoted path
      | PermissionError \<Rightarrow> ''Error: Permission denied to read file '' @ quoted path
      | _ \<Rightarrow> ''Error reading file '' @ quoted path @ '': '' @ exn_str e)"

definition read_file :: "os_env \<Rightarrow> node \<Rightarrow> string \<Rightarrow> string" where
  "read_file os t path =
     (case resolve os path of
        Inl e \<Rightarrow> read_file_except path e
      | Inr file_path \<Rightarrow>
          if \<not> prefix (cwd os) file_path then access_denied ''read'' os
          else if \<not> is_file t file_path then
            ''Error: Path '' @ quoted path @ '' is not a file or does not exist.''
          else
            (case read_text os t file_path of
               Inl e \<Rightarrow> read_file_except path e
             | Inr content \<Rightarrow>
                 if length content > max_len
                 then take max_len content @
                      [CHR 0x0A, CHR 0x0A] @ ''[... File truncated due to length ...]''
                 else content))"

definition max_items :: nat where
  "max_items = 200"

definition truncation_marker :: string where
  "truncation_marker = ''[... Directory listing truncated due to size ...]''"

definition render_item :: "string \<Rightarrow> string \<times> node \<Rightarrow> string" where
  \<comment> \<open>what the loop appends for one child: a directory gets a trailing slash\<close>
  "render_item path item =
     (case item of (name, n) \<Rightarrow>
        (case n of Dir _ \<Rightarrow> rel_path path name @ ''/'' | File _ \<Rightarrow> rel_path path name))"

fun list_loop :: "string \<Rightarrow> (string \<times> node) list \<Rightarrow> string list \<Rightarrow> nat \<Rightarrow> string list" where
  \<comment> \<open>the \<open>for item in base_path.iterdir()\<close> loop, with its \<open>items\<close> and \<open>count\<close>\<close>
  "list_loop path [] items count = items"
| "list_loop path (item # rest) items count =
     (if count \<ge> max_items then items @ [truncation_marker]
      else list_loop path rest (items @ [render_item path item]) (count + 1))"

definition list_files_except :: "string \<Rightarrow> exn \<Rightarrow> string" where
  "list_files_except path e =
     (case e of
        FileNotFoundError \<Rightarrow> ''Error: Directory not found at path '' @ quoted path
      | PermissionError \<Rightarrow> ''Error: Permission denied to list directory '' @ quoted path
      | _ \<Rightarrow> ''Error listing files in '' @ quoted path @ '': '' @ exn_str e)"

definition list_files :: "os_env \<Rightarrow> node \<Rightarrow> string \<Rightarrow> string" where
  "list_files os t path =
     (case resolve os path of
        Inl e \<Rightarrow> list_files_except path e
      | Inr base_path \<Rightarrow>
          if \<not> prefix (cwd os) base_path then access_denied ''list'' os
          else if \<not> is_dir t base_path then
            ''Error: Path '' @ quoted path @ '' is not a directory or does not exist.''
          else
            (case iterdir os t base_path of
               Inl e \<Rightarrow> list_files_except path e
             | Inr children \<Rightarrow> json_dumps (list_loop path children [] 0)))"

definition create_new_file_except :: "string \<Rightarrow> exn \<Rightarrow> string" where
  "create_new_file_except file_path_str e =
     (case e of
        PermissionError \<Rightarrow>
          ''Error: Permission denied to create file or directory for '' @ quoted file_path_str
      | _ \<Rightarrow> ''Error creating file '' @ quoted file_path_str @ '': '' @ exn_str e)"

definition create_new_file :: "os_env \<Rightarrow> node \<Rightarrow> string \<Rightarrow> string \<Rightarrow> string \<times> node" where
  "create_new_file os t file_path_str content =
     (case resolve os file_path_str of
        Inl e \<Rightarrow> (create_new_file_except file_path_str e, t)
      | Inr file_path \<Rightarrow>
          if \<not> prefix (cwd os) file_path then (access_denied ''create'' os, t)
          else
            (case mkdir_parents os t (butlast file_path) of
               Inl e \<Rightarrow> (create_new_file_except file_path_str e, t)
             | Inr t1 \<Rightarrow>
                 (case write_text os t1 file_path content of
                    Inl e \<Rightarrow> (create_new_file_except file_path_str e, t1)
                  | Inr t2 \<Rightarrow> (''Successfully created file '' @ file_path_str, t2))))"

definition no_op_edit :: string where
  "no_op_edit = ''Error: 'old_str' and 'new_str' must be different for editing.''"

definition pattern_not_found :: "string \<Rightarrow> string" where
  \<comment> \<open>what both not-found messages start with\<close>
  "pattern_not_found old_str =
     ''Error: 'old_str' ('' @ quoted old_str @ '') not found exactly in file''"

definition no_change_warning :: "string \<Rightarrow> string \<Rightarrow> string \<Rightarrow> string" where
  "no_change_warning path old_str new_str =
     ''Warning: Replacing '' @ quoted old_str @ '' with '' @ quoted new_str @
     '' resulted in no changes to the file '' @ quoted path @ ''. Check if 'old_str' exists.''"

definition edit_file_except :: "string \<Rightarrow> exn \<Rightarrow> string" where
  "edit_file_except path e =
     (case e of
        FileNotFoundError \<Rightarrow> ''Error: File not found at path '' @ quoted path
      | PermissionError \<Rightarrow> ''Error: Permission denied to read or write file '' @ quoted path
      | _ \<Rightarrow> ''Error editing file '' @ quoted path @ '': '' @ exn_str e)"

definition edit_file :: "os_env \<Rightarrow> node \<Rightarrow> string \<Rightarrow> string \<Rightarrow> string \<Rightarrow> string \<times> node" where
  "edit_file os t path old_str new_str =
     (if old_str = new_str then (no_op_edit, t)
      else if path = [] then (''Error: 'path' cannot be empty.'', t)
      else
        (case resolve os path of
           Inl e \<Rightarrow> (edit_file_except path e, t)
         | Inr file_path \<Rightarrow>
             if \<not> prefix (cwd os) file_path then (access_denied ''edit'' os, t)
             else if \<not> exists t file_path then
               (if old_str = [] then create_new_file os t path new_str
                else (''Error: File not found at path '' @ quoted path @
                      '' and 'old_str' is not empty (cannot replace in non-existent file).'', t))
             else if \<not> is_file t file_path then
               (''Error: Path '' @ quoted path @ '' exists but is not a file.'', t)
             else
               (case read_text os t file_path of
                  Inl e \<Rightarrow> (edit_file_except path e, t)
                | Inr original_content \<Rightarrow>
                    let processed_old_str = unescape old_str;
                        processed_new_str = unescape new_str
                    in
                      if processed_old_str \<noteq> [] \<and> \<not> str_in processed_old_str original_content
                      then
                        (if str_in (strip old_str) original_content
                         then (pattern_not_found old_str @ ''. Did you mean '' @
                               quoted (strip old_str) @
                               '' (ignoring leading/trailing whitespace)?'', t)
                         else (pattern_not_found old_str @ '' '' @ quoted path @
                               ''. Replacement aborted.'', t))
                      else
                        let new_content =
                              str_replace original_content processed_old_str processed_new_str
                        in
                          if processed_old_str \<noteq> [] \<and> new_content = original_content
                          then (no_change_warning path old_str new_str, t)
                          else
                            (case write_text os t file_path new_content of
                               Inl e \<Rightarrow> (edit_file_except path e, t)
                             | Inr t' \<Rightarrow> (''OK'', t')))))"

section \<open>The agent loop\<close>

record tool_call =
  tc_id :: string
  tc_name :: string
  tc_arguments :: string

record response_message =
  content :: "string option"
  tool_calls :: "tool_call list"
















section \<open>A concrete environment\<close>

text \<open>
  Resolution on a file system without symbolic links: a relative path is taken from the
  working directory, \<open>..\<close> steps to the parent (the root is its own parent).
\<close>

definition lexical_resolve :: "path \<Rightarrow> string \<Rightarrow> exn + path" where
  "lexical_resolve wd s =
     Inr (fold (\<lambda>c p. if c = ''..'' then butlast p else p @ [c]) (pure_parts s)
            (if pure_root s = [] then wd else []))"

definition example_os :: os_env where
  "example_os =
     \<lparr>cwd = [''w''], resolve = lexical_resolve [''w''],
      read_fault = (\<lambda>_. None), write_fault = (\<lambda>_. None),
      mkdir_fault = (\<lambda>_. None), list_fault = (\<lambda>_. None)\<rparr>"

definition example_tree :: node where
  "example_tree =
     Dir [(''w'', Dir [(''a.txt'', File ''hello hello''),
                       (''n.txt'', File [CHR ''a'', CHR 0x0A, CHR ''b'']),
                       (''e.txt'', File [CHR ''a'', CHR 0x5C, CHR ''n'', CHR ''b'']),
                       (''sub'', Dir [])]),
          (''etc'', Dir [(''passwd'', File ''root'')])]"








section \<open>Evaluating the concrete environment\<close>

lemmas example_simps =
  example_os_def example_tree_def lexical_resolve_def pure_parts_def pure_root_def

section \<open>The no-op guard\<close>

text \<open>
  C6: when \<open>old_str\<close> and \<open>new_str\<close> are the same string, \<open>edit_file\<close> returns the no-op
  error whatever the path, the environment and the tree are (so whether the file exists, is
  a directory, or what it holds), and the tree comes back as it was: the guard is the first
  statement, before anything touches the file system.
\<close>

theorem edit_file_no_op: "edit_file os t path s s = (no_op_edit, t)"
  by (simp add: edit_file_def)

section \<open>Containment\<close>

lemma create_new_file_outside:
  "resolve os p = Inr q \<Longrightarrow> \<not> prefix (cwd os) q \<Longrightarrow>
   create_new_file os t p c = (access_denied ''create'' os, t)"
  by (simp add: create_new_file_def)

text \<open>
  C1, as amended: for a path whose resolution lies outside the tree of the working
  directory, \<open>read_file\<close> and \<open>list_files\<close> return the access-denied message, and so does
  \<open>edit_file\<close> unless one of its two earlier guards answers first (equal strings give the
  no-op error, an empty path string its own error); no call changes the file system.
\<close>

theorem outside_workspace_denied:
  assumes "resolve os p = Inr q" and "\<not> prefix (cwd os) q"
  shows "read_file os t p = access_denied ''read'' os \<and>
         list_files os t p = access_denied ''list'' os \<and>
         edit_file os t p old_str new_str =
           (if old_str = new_str then no_op_edit
            else if p = [] then ''Error: 'path' cannot be empty.''
            else access_denied ''edit'' os, t)"
  using assms by (simp add: read_file_def list_files_def edit_file_def)

theorem outside_workspace_denied_witness:
  "resolve example_os ''../etc/passwd'' = Inr [''etc'', ''passwd''] \<and>
   \<not> prefix (cwd example_os) [''etc'', ''passwd''] \<and>
   read_file example_os example_tree ''../etc/passwd'' = access_denied ''read'' example_os \<and>
   list_files example_os example_tree ''../etc/passwd'' = access_denied ''list'' example_os \<and>
   edit_file example_os example_tree ''../etc/passwd'' ''root'' ''toor'' =
     (access_denied ''edit'' example_os, example_tree)"
proof -
  have r: "resolve example_os ''../etc/passwd'' = Inr [''etc'', ''passwd'']"
    by (simp add: example_simps)
  have o: "\<not> prefix (cwd example_os) [''etc'', ''passwd'']"
    by (simp add: example_os_def)
  from outside_workspace_denied [OF r o, of example_tree "''root''" "''toor''"] r o
  show ?thesis by simp
qed

text \<open>
  The claim as the specification words it fails for \<open>edit_file\<close>: on a path outside the
  working directory and two equal strings the answer is the no-op error, not access denied.
\<close>

theorem outside_workspace_counterexample:
  "resolve example_os ''../etc/passwd'' = Inr [''etc'', ''passwd''] \<and>
   \<not> prefix (cwd example_os) [''etc'', ''passwd''] \<and>
   fst (edit_file example_os example_tree ''../etc/passwd'' ''root'' ''root'') = no_op_edit \<and>
   no_op_edit \<noteq> access_denied ''edit'' example_os"
  by (simp add: example_simps edit_file_def no_op_edit_def access_denied_def)

section \<open>Replacement and escapes\<close>






section \<open>Editing an existing file\<close>









section \<open>Listing a directory\<close>

lemma list_loop_eq:
  "count \<le> max_items \<Longrightarrow>
   list_loop path es items count =
     items @ map (render_item path) (take (max_items - count) es) @
     (if max_items - count < length es then [truncation_marker] else [])"
proof (induction es arbitrary: items count)
  case Nil
  then show ?case by simp
next
  case (Cons e es)
  show ?case
  proof (cases "count = max_items")
    case True
    then show ?thesis by simp
  next
    case False
    with Cons.prems have lt: "count < max_items" by simp
    then have s: "max_items - count = Suc (max_items - (count + 1))" by simp
    from lt have "count + 1 \<le> max_items" by simp
    from Cons.IH [OF this, of "items @ [render_item path e]"] lt
    show ?thesis by (simp add: s)
  qed
qed

text \<open>
  C8: for a directory of the workspace that can be listed, \<open>list_files\<close> returns the
  serialized array of the first 200 children at most, each rendered once and in the order
  of iteration; when the directory has more than 200 children the truncation marker follows
  them as the last element, and nothing comes after it.
\<close>

theorem list_files_capped:
  assumes "resolve os path = Inr q" and "prefix (cwd os) q"
    and "lookup t q = Some (Dir es)" and "list_fault os q = None"
  shows "list_files os t path =
           json_dumps (map (render_item path) (take 200 es) @
                       (if 200 < length es then [truncation_marker] else []))"
proof -
  have "list_loop path es [] 0 =
          map (render_item path) (take 200 es) @
          (if 200 < length es then [truncation_marker] else [])"
    using list_loop_eq [of 0 path es "[]"] by (simp add: max_items_def)
  with assms show ?thesis
    by (simp add: list_files_def is_dir_def iterdir_def)
qed

lemma rel_path_dot: "rel_path ''.'' name = name"
  by (simp add: rel_path_def pure_parts_def pure_root_def)

theorem list_files_capped_witness:
  "resolve example_os ''.'' = Inr [''w''] \<and> prefix (cwd example_os) [''w''] \<and>
   lookup example_tree [''w''] =
     Some (Dir [(''a.txt'', File ''hello hello''),
                (''n.txt'', File [CHR ''a'', CHR 0x0A, CHR ''b'']),
                (''e.txt'', File [CHR ''a'', CHR 0x5C, CHR ''n'', CHR ''b'']),
                (''sub'', Dir [])]) \<and>
   list_fault example_os [''w''] = None \<and>
   list_files example_os example_tree ''.'' =
     json_dumps [''a.txt'', ''n.txt'', ''e.txt'', ''sub/'']"
proof -
  have h: "resolve example_os ''.'' = Inr [''w''] \<and> prefix (cwd example_os) [''w''] \<and>
     lookup example_tree [''w''] =
       Some (Dir [(''a.txt'', File ''hello hello''),
                  (''n.txt'', File [CHR ''a'', CHR 0x0A, CHR ''b'']),
                  (''e.txt'', File [CHR ''a'', CHR 0x5C, CHR ''n'', CHR ''b'']),
                  (''sub'', Dir [])]) \<and>
     list_fault example_os [''w''] = None"
    by (simp add: example_simps)
  from list_files_capped [of example_os "''.''" "[''w'']" example_tree] h
  show ?thesis
    by (simp add: render_item_def rel_path_dot)
qed

section \<open>Writing to the tree\<close>

lemma map_of_replace_same:
  "x \<in> fst ` set es \<Longrightarrow>
   map_of (map (\<lambda>(k, v). if k = x then (k, ch) else (k, v)) es) x = Some ch"
  by (induction es) auto

lemma map_of_replace_other:
  "y \<noteq> x \<Longrightarrow> map_of (map (\<lambda>(k, v). if k = x then (k, ch) else (k, v)) es) y = map_of es y"
  by (induction es) auto

lemma map_of_put_child_same: "map_of (put_child x ch es) x = Some ch"
proof (cases "x \<in> fst ` set es")
  case True
  then show ?thesis by (simp add: put_child_def map_of_replace_same)
next
  case False
  then have "map_of es x = None" by (simp add: map_of_eq_None_iff)
  with False show ?thesis by (simp add: put_child_def map_add_def)
qed

lemma map_of_put_child_other: "y \<noteq> x \<Longrightarrow> map_of (put_child x ch es) y = map_of es y"
  by (auto simp: put_child_def map_of_replace_other map_add_def split: option.splits)



section \<open>Replacement as splitting and joining\<close>













section \<open>Successful edits\<close>



lemma unescape_plain [simp]:
  "unescape ''hello'' = ''hello''" "unescape ''bye'' = ''bye''" "unescape ''X'' = ''X''"
  by (simp_all add: unescape_def)

lemma unescape_backslash_n [simp]: "unescape [CHR 0x5C, CHR ''n''] = [CHR 0x0A]"
  by (simp add: unescape_def)







section \<open>Creating a file\<close>

lemma lookup_append:
  "lookup t (p @ r) = (case lookup t p of None \<Rightarrow> None | Some m \<Rightarrow> lookup m r)"
  by (induction p arbitrary: t) (auto split: node.splits option.splits)

lemma lookup_prefix_is_dir:
  assumes "lookup t q = Some n" and "k < length q"
  shows "is_dir t (take k q)"
proof -
  have q: "q = take k q @ drop k q" by simp
  from assms(2) obtain x xs where d: "drop k q = x # xs"
    by (cases "drop k q") auto
  from assms(1) have "lookup t (take k q @ x # xs) = Some n"
    using q d by metis
  then show ?thesis
    by (auto simp: lookup_append is_dir_def split: option.splits node.splits)
qed

lemma mkdir_node_ok:
  "(\<forall>k \<le> length d. \<not> is_file t (take k d)) \<Longrightarrow> \<exists>t1. mkdir_node t d = Inr t1 \<and> is_dir t1 d"
proof (induction d arbitrary: t)
  case Nil
  then show ?case by (cases t) (auto simp: is_file_def is_dir_def)
next
  case (Cons x xs)
  from Cons.prems have "\<not> is_file t (take 0 (x # xs))" by blast
  then obtain es where t: "t = Dir es" by (cases t) (auto simp: is_file_def)
  define ch where "ch = (case map_of es x of None \<Rightarrow> Dir [] | Some ch \<Rightarrow> ch)"
  have "\<forall>k \<le> length xs. \<not> is_file ch (take k xs)"
  proof (intro allI impI)
    fix k assume k: "k \<le> length xs"
    show "\<not> is_file ch (take k xs)"
    proof (cases "map_of es x")
      case None
      then have "ch = Dir []" by (simp add: ch_def)
      then show ?thesis by (cases "take k xs") (auto simp: is_file_def)
    next
      case (Some c)
      from Cons.prems k have "\<not> is_file t (take (Suc k) (x # xs))" by auto
      with Some t show ?thesis by (simp add: ch_def is_file_def)
    qed
  qed
  from Cons.IH [OF this] obtain ch' where m: "mkdir_node ch xs = Inr ch'" and d: "is_dir ch' xs"
    by blast
  from t m d show ?case
    by (simp add: ch_def [symmetric] is_dir_def map_of_put_child_same)
qed

lemma mkdir_node_child_absent:
  "mkdir_node t d = Inr t1 \<Longrightarrow> lookup t (d @ [x]) = None \<Longrightarrow> lookup t1 (d @ [x]) = None"
proof (induction d arbitrary: t t1)
  case Nil
  then show ?case by (cases t) auto
next
  case (Cons y ys)
  from Cons.prems(1) obtain es where t: "t = Dir es" by (cases t) auto
  define ch where "ch = (case map_of es y of None \<Rightarrow> Dir [] | Some ch \<Rightarrow> ch)"
  from Cons.prems(1) t obtain ch' where m: "mkdir_node ch ys = Inr ch'"
    and t1: "t1 = Dir (put_child y ch' es)"
    by (auto simp: ch_def split: sum.splits)
  have "lookup ch (ys @ [x]) = None"
  proof (cases "map_of es y")
    case None
    then have "ch = Dir []" by (simp add: ch_def)
    then show ?thesis by (cases ys) auto
  next
    case (Some c)
    with Cons.prems(2) t show ?thesis by (simp add: ch_def)
  qed
  from Cons.IH [OF m this] t1 show ?case
    by (simp add: map_of_put_child_same)
qed

lemma write_node_new:
  "is_dir t d \<Longrightarrow> lookup t (d @ [x]) = None \<Longrightarrow>
   \<exists>t'. write_node t (d @ [x]) c = Inr t' \<and> lookup t' (d @ [x]) = Some (File c)"
proof (induction d arbitrary: t)
  case Nil
  then obtain es where t: "t = Dir es" by (cases t) (auto simp: is_dir_def)
  with Nil.prems(2) have "map_of es x = None" by (auto split: option.splits)
  with t show ?case by (simp add: map_of_put_child_same)
next
  case (Cons y ys)
  from Cons.prems(1) obtain es ch where t: "t = Dir es" and m: "map_of es y = Some ch"
    and d: "is_dir ch ys"
    by (cases t) (auto simp: is_dir_def split: option.splits)
  from Cons.prems(2) t m have "lookup ch (ys @ [x]) = None" by simp
  from Cons.IH [OF d this] obtain ch' where w: "write_node ch (ys @ [x]) c = Inr ch'"
    and l: "lookup ch' (ys @ [x]) = Some (File c)" by blast
  from t m w l show ?case by (simp add: map_of_put_child_same)
qed

lemma create_new_file_ok:
  assumes "resolve os path = Inr q" and "prefix (cwd os) q" and "lookup t q = None"
    and "\<forall>k < length q. \<not> is_file t (take k q)"
    and "mkdir_fault os (butlast q) = None" and "write_fault os q = None"
  shows "\<exists>t'. create_new_file os t path data = (''Successfully created file '' @ path, t') \<and>
              lookup t' q = Some (File data)"
proof -
  from assms(3) have ne: "q \<noteq> []" by (cases q) auto
  then have q: "q = butlast q @ [last q]" by simp
  have "\<forall>k \<le> length (butlast q). \<not> is_file t (take k (butlast q))"
  proof (intro allI impI)
    fix k assume "k \<le> length (butlast q)"
    then have "k \<le> length q - 1" by (simp only: length_butlast)
    moreover from ne have "0 < length q" by simp
    ultimately have k: "k < length q" by arith
    then have "take k (butlast q) = take k q" by (simp add: take_butlast)
    with assms(4) k show "\<not> is_file t (take k (butlast q))" by simp
  qed
  from mkdir_node_ok [OF this] obtain t1 where m: "mkdir_node t (butlast q) = Inr t1"
    and d: "is_dir t1 (butlast q)" by blast
  from assms(3) q have "lookup t (butlast q @ [last q]) = None" by simp
  from mkdir_node_child_absent [OF m this] have a: "lookup t1 (butlast q @ [last q]) = None" .
  from write_node_new [OF d a, of data] q
  obtain t' where w: "write_node t1 q data = Inr t'" and l: "lookup t' q = Some (File data)"
    by auto
  from assms(1,2,5,6) m w have
    "create_new_file os t path data = (''Successfully created file '' @ path, t')"
    by (simp add: create_new_file_def mkdir_parents_def write_text_def)
  with l show ?thesis by blast
qed

text \<open>
  C5, as amended: for a non-empty path string that resolves inside the workspace to a path
  at which nothing exists. With an empty \<open>old_str\<close> and a non-empty \<open>new_str\<close>, when no
  ancestor of the path is a regular file and the operating system refuses neither the
  directories nor the write, \<open>edit_file\<close> reports the creation, the file exists afterwards
  with exactly \<open>new_str\<close> as content, and every ancestor is a directory. With a non-empty
  \<open>old_str\<close> different from \<open>new_str\<close>, \<open>edit_file\<close> returns the file-not-found error and
  the tree is unchanged.
\<close>

theorem edit_file_missing_path:
  assumes "path \<noteq> []" and "resolve os path = Inr q" and "prefix (cwd os) q"
    and "lookup t q = None"
  shows "(new_str \<noteq> [] \<and> (\<forall>k < length q. \<not> is_file t (take k q)) \<and>
          mkdir_fault os (butlast q) = None \<and> write_fault os q = None \<longrightarrow>
            (\<exists>t'. edit_file os t path [] new_str = (''Successfully created file '' @ path, t') \<and>
                  lookup t' q = Some (File new_str) \<and>
                  (\<forall>k < length q. is_dir t' (take k q)))) \<and>
         (old_str \<noteq> [] \<and> old_str \<noteq> new_str \<longrightarrow>
            edit_file os t path old_str new_str =
              (''Error: File not found at path '' @ quoted path @
               '' and 'old_str' is not empty (cannot replace in non-existent file).'', t))"
proof (intro conjI impI)
  assume h: "new_str \<noteq> [] \<and> (\<forall>k < length q. \<not> is_file t (take k q)) \<and>
          mkdir_fault os (butlast q) = None \<and> write_fault os q = None"
  then have "\<forall>k < length q. \<not> is_file t (take k q)" "mkdir_fault os (butlast q) = None"
    "write_fault os q = None" by simp_all
  from create_new_file_ok [OF assms(2,3,4) this, of new_str]
  obtain t' where c: "create_new_file os t path new_str = (''Successfully created file '' @ path, t')"
    and l: "lookup t' q = Some (File new_str)" by blast
  from h assms c have "edit_file os t path [] new_str = (''Successfully created file '' @ path, t')"
    by (auto simp: edit_file_def exists_def)
  moreover have "\<forall>k < length q. is_dir t' (take k q)"
    using lookup_prefix_is_dir [OF l] by blast
  ultimately show "\<exists>t'. edit_file os t path [] new_str = (''Successfully created file '' @ path, t') \<and>
                  lookup t' q = Some (File new_str) \<and>
                  (\<forall>k < length q. is_dir t' (take k q))"
    using l by blast
next
  assume "old_str \<noteq> [] \<and> old_str \<noteq> new_str"
  with assms show "edit_file os t path old_str new_str =
              (''Error: File not found at path '' @ quoted path @
               '' and 'old_str' is not empty (cannot replace in non-existent file).'', t)"
    by (simp add: edit_file_def exists_def)
qed

lemma example_new_path:
  "resolve example_os ''n/m/b.txt'' = Inr [''w'', ''n'', ''m'', ''b.txt''] \<and>
   prefix (cwd example_os) [''w'', ''n'', ''m'', ''b.txt''] \<and>
   lookup example_tree [''w'', ''n'', ''m'', ''b.txt''] = None \<and>
   mkdir_fault example_os (butlast [''w'', ''n'', ''m'', ''b.txt'']) = None \<and>
   write_fault example_os [''w'', ''n'', ''m'', ''b.txt''] = None"
  by (simp add: example_simps)

lemma example_new_path_clear:
  "\<forall>k < length [''w'', ''n'', ''m'', ''b.txt'']. \<not> is_file example_tree (take k [''w'', ''n'', ''m'', ''b.txt''])"
proof (intro allI impI)
  fix k :: nat assume "k < length [''w'', ''n'', ''m'', ''b.txt'']"
  then have "k = 0 \<or> k = 1 \<or> k = 2 \<or> k = 3" by auto
  then show "\<not> is_file example_tree (take k [''w'', ''n'', ''m'', ''b.txt''])"
    by (auto simp: example_simps is_file_def)
qed

theorem edit_file_missing_path_witness:
  "''n/m/b.txt'' \<noteq> [] \<and>
   resolve example_os ''n/m/b.txt'' = Inr [''w'', ''n'', ''m'', ''b.txt''] \<and>
   prefix (cwd example_os) [''w'', ''n'', ''m'', ''b.txt''] \<and>
   lookup example_tree [''w'', ''n'', ''m'', ''b.txt''] = None \<and>
   ''X'' \<noteq> [] \<and>
   \<not> is_file example_tree [] \<and> \<not> is_file example_tree [''w''] \<and>
   \<not> is_file example_tree [''w'', ''n''] \<and> \<not> is_file example_tree [''w'', ''n'', ''m''] \<and>
   mkdir_fault example_os (butlast [''w'', ''n'', ''m'', ''b.txt'']) = None \<and>
   write_fault example_os [''w'', ''n'', ''m'', ''b.txt''] = None \<and>
   ''y'' \<noteq> [] \<and> ''y'' \<noteq> ''X'' \<and>
   (\<exists>t'. edit_file example_os example_tree ''n/m/b.txt'' [] ''X'' =
           (''Successfully created file n/m/b.txt'', t') \<and>
         lookup t' [''w'', ''n'', ''m'', ''b.txt''] = Some (File ''X'') \<and>
         is_dir t' [''w'', ''n'', ''m''] \<and> is_dir t' [''w'', ''n'']) \<and>
   edit_file example_os example_tree ''n/m/b.txt'' ''y'' ''X'' =
     (''Error: File not found at path '' @ quoted ''n/m/b.txt'' @
      '' and 'old_str' is not empty (cannot replace in non-existent file).'', example_tree)"
proof -
  have p: "''n/m/b.txt'' \<noteq> []" by simp
  from example_new_path have r: "resolve example_os ''n/m/b.txt'' = Inr [''w'', ''n'', ''m'', ''b.txt'']"
    and i: "prefix (cwd example_os) [''w'', ''n'', ''m'', ''b.txt'']"
    and l: "lookup example_tree [''w'', ''n'', ''m'', ''b.txt''] = None" by simp_all
  note th = edit_file_missing_path [OF p r i l, of "''X''" "''y''"]
  from th example_new_path example_new_path_clear
  obtain t' where c: "edit_file example_os example_tree ''n/m/b.txt'' [] ''X'' =
           (''Successfully created file '' @ ''n/m/b.txt'', t')"
    and f: "lookup t' [''w'', ''n'', ''m'', ''b.txt''] = Some (File ''X'')"
    and d: "\<forall>k < length [''w'', ''n'', ''m'', ''b.txt'']. is_dir t' (take k [''w'', ''n'', ''m'', ''b.txt''])"
    by auto
  from d [rule_format, of 3] d [rule_format, of 2]
  have d': "is_dir t' [''w'', ''n'', ''m'']" "is_dir t' [''w'', ''n'']" by simp_all
  from th have e: "edit_file example_os example_tree ''n/m/b.txt'' ''y'' ''X'' =
     (''Error: File not found at path '' @ quoted ''n/m/b.txt'' @
      '' and 'old_str' is not empty (cannot replace in non-existent file).'', example_tree)"
    by simp
  from c f d' have "\<exists>t'. edit_file example_os example_tree ''n/m/b.txt'' [] ''X'' =
           (''Successfully created file n/m/b.txt'', t') \<and>
         lookup t' [''w'', ''n'', ''m'', ''b.txt''] = Some (File ''X'') \<and>
         is_dir t' [''w'', ''n'', ''m''] \<and> is_dir t' [''w'', ''n'']"
    by simp
  moreover have "\<not> is_file example_tree [] \<and> \<not> is_file example_tree [''w''] \<and>
      \<not> is_file example_tree [''w'', ''n''] \<and> \<not> is_file example_tree [''w'', ''n'', ''m'']"
    by (simp add: example_simps is_file_def)
  ultimately show ?thesis using example_new_path e by simp
qed

text \<open>
  The claim as the specification words it, for every \<open>new_str\<close>, fails at the empty one:
  the no-op guard answers and no file is created.
\<close>

theorem edit_file_missing_path_counterexample:
  "resolve example_os ''new.txt'' = Inr [''w'', ''new.txt''] \<and>
   prefix (cwd example_os) [''w'', ''new.txt''] \<and>
   lookup example_tree [''w'', ''new.txt''] = None \<and>
   edit_file example_os example_tree ''new.txt'' [] [] = (no_op_edit, example_tree) \<and>
   lookup (snd (edit_file example_os example_tree ''new.txt'' [] [])) [''w'', ''new.txt''] = None"
  by (simp add: example_simps edit_file_def)

section \<open>Rounds of tool calls\<close>
















end
